theory Spec2Isabelle
  imports Complex_Main "HOL-Library.Sublist"
begin

section \<open>JavaScript values used by the guards\<close>

text \<open>
  A JavaScript number is either NaN, one of the two infinities, or a finite value. The
  finite values are kept as reals: the guards only compare numbers, and the comparisons
  of IEEE doubles agree with the comparisons of the reals they denote.
\<close>

datatype jsnum = NaN | NegInf | Fin real | PosInf

text \<open>\<^verbatim>\<open>a < b\<close>: false as soon as one side is NaN.\<close>

fun js_lt :: "jsnum \<Rightarrow> jsnum \<Rightarrow> bool" where
  "js_lt NaN _ = False"
| "js_lt _ NaN = False"
| "js_lt PosInf _ = False"
| "js_lt _ NegInf = False"
| "js_lt NegInf _ = True"
| "js_lt (Fin x) (Fin y) = (x < y)"
| "js_lt (Fin _) PosInf = True"

text \<open>\<^verbatim>\<open>a > b\<close> and \<^verbatim>\<open>a <= b\<close>.\<close>

definition js_gt :: "jsnum \<Rightarrow> jsnum \<Rightarrow> bool" where
  "js_gt a b = js_lt b a"

definition js_le :: "jsnum \<Rightarrow> jsnum \<Rightarrow> bool" where
  "js_le a b = (a \<noteq> NaN \<and> b \<noteq> NaN \<and> \<not> js_lt b a)"

definition isNaN :: "jsnum \<Rightarrow> bool" where
  "isNaN x = (x = NaN)"

text \<open>\<^verbatim>\<open>Math.min(a, b)\<close>: NaN as soon as one argument is NaN.\<close>

definition Math_min :: "jsnum \<Rightarrow> jsnum \<Rightarrow> jsnum" where
  "Math_min a b = (if a = NaN \<or> b = NaN then NaN else if js_lt b a then b else a)"

text \<open>\<^verbatim>\<open>x || d\<close> on numbers: NaN and zero are falsy.\<close>

definition or_default :: "jsnum \<Rightarrow> jsnum \<Rightarrow> jsnum" where
  "or_default x d = (if x = NaN \<or> x = Fin 0 then d else x)"

text \<open>
  A value of \<^verbatim>\<open>req.query\<close> (or of \<^verbatim>\<open>process.env\<close>) that the code reads as
  a number is a string or is missing. Three facts about it are used: whether it is
  truthy (a non-empty string), the number \<^verbatim>\<open>parseFloat\<close> reads from it, and whether
  the whole string is a decimal literal, as \<^verbatim>\<open>isFloat\<close> of validator.js requires.
  \<open>Text n\<close> is a non-empty string that is such a literal and on which
  \<^verbatim>\<open>parseFloat\<close> returns \<open>n\<close>; \<open>Loose n\<close> is any other non-empty string
  (\<^verbatim>\<open>'12abc'\<close> is \<open>Loose (Fin 12)\<close>, \<^verbatim>\<open>'abc'\<close> is \<open>Loose NaN\<close>).
\<close>

datatype qval = Undefined | Empty | Text jsnum | Loose jsnum

fun truthy :: "qval \<Rightarrow> bool" where
  "truthy (Text _) = True"
| "truthy (Loose _) = True"
| "truthy _ = False"

fun parseFloat :: "qval \<Rightarrow> jsnum" where
  "parseFloat (Text n) = n"
| "parseFloat (Loose n) = n"
| "parseFloat _ = NaN"

text \<open>A destructuring default \<^verbatim>\<open>{ x = d }\<close> replaces only \<^verbatim>\<open>undefined\<close>.\<close>

fun with_default :: "qval \<Rightarrow> qval \<Rightarrow> qval" where
  "with_default Undefined d = d"
| "with_default v _ = v"

text \<open>\<^verbatim>\<open>s || 'fallback'\<close> on an optional string: missing and empty strings are falsy.\<close>

fun str_or :: "string option \<Rightarrow> string \<Rightarrow> string option" where
  "str_or None d = Some d"
| "str_or (Some s) d = (if s = [] then Some d else Some s)"

section \<open>Errors\<close>

text \<open>
  \<^verbatim>\<open>new AppError(message, statusCode)\<close> of errorHandler.js. A message is kept as the
  parts of its template literal: fixed text and interpolated numbers. \<open>TypeError\<close> is
  the exception thrown by reading a property of \<^verbatim>\<open>undefined\<close>, which
  \<^verbatim>\<open>asyncHandler\<close> passes to \<^verbatim>\<open>next\<close>.
\<close>

datatype part = Lit string | Num jsnum

datatype error = AppError (message: "part list") (statusCode: nat) | TypeError

section \<open>Configuration\<close>

text \<open>
  \<open>MAX_SEARCH_RADIUS\<close> is the number \<^verbatim>\<open>parseInt(process.env.MAX_SEARCH_RADIUS)\<close>
  (NaN when the variable is unset); \<open>DEFAULT_SEARCH_RADIUS\<close> is the raw variable.
\<close>

record env =
  MAX_SEARCH_RADIUS :: jsnum
  DEFAULT_SEARCH_RADIUS :: qval

text \<open>\<^verbatim>\<open>parseInt(process.env.MAX_SEARCH_RADIUS) || 5\<close>\<close>

definition maxAllowedDistance :: "env \<Rightarrow> jsnum" where
  "maxAllowedDistance e = or_default (MAX_SEARCH_RADIUS e) (Fin 5)"

section \<open>Distance calculator (geoUtils)\<close>

text \<open>
  \<^verbatim>\<open>calculateDistance\<close> computes with the arithmetic of the JavaScript engine: IEEE
  doubles, and \<^verbatim>\<open>Math.sin\<close>, \<^verbatim>\<open>Math.cos\<close>, \<^verbatim>\<open>Math.sqrt\<close>,
  \<^verbatim>\<open>Math.atan2\<close>, whose results the language leaves to the implementation. The
  engine is an argument of the model: a record of the operations the function calls.
  The function itself is transcribed operation by operation, in the order JavaScript
  evaluates them.
\<close>

record js_math =
  m_PI :: jsnum
  m_add :: "jsnum \<Rightarrow> jsnum \<Rightarrow> jsnum"
  m_sub :: "jsnum \<Rightarrow> jsnum \<Rightarrow> jsnum"
  m_mul :: "jsnum \<Rightarrow> jsnum \<Rightarrow> jsnum"
  m_div :: "jsnum \<Rightarrow> jsnum \<Rightarrow> jsnum"
  m_sin :: "jsnum \<Rightarrow> jsnum"
  m_cos :: "jsnum \<Rightarrow> jsnum"
  m_sqrt :: "jsnum \<Rightarrow> jsnum"
  m_atan2 :: "jsnum \<Rightarrow> jsnum \<Rightarrow> jsnum"
  m_round :: "jsnum \<Rightarrow> jsnum"

definition toRadians :: "js_math \<Rightarrow> jsnum \<Rightarrow> jsnum" where
  "toRadians M degrees = m_mul M degrees (m_div M (m_PI M) (Fin 180))"

definition calculateDistance :: "js_math \<Rightarrow> jsnum \<Rightarrow> jsnum \<Rightarrow> jsnum \<Rightarrow> jsnum \<Rightarrow> jsnum" where
  "calculateDistance M lat1 lon1 lat2 lon2 =
     (let R = Fin 6371;
          dLat = toRadians M (m_sub M lat2 lat1);
          dLon = toRadians M (m_sub M lon2 lon1);
          a = m_add M
                (m_mul M (m_sin M (m_div M dLat (Fin 2))) (m_sin M (m_div M dLat (Fin 2))))
                (m_mul M
                   (m_mul M
                      (m_mul M (m_cos M (toRadians M lat1)) (m_cos M (toRadians M lat2)))
                      (m_sin M (m_div M dLon (Fin 2))))
                   (m_sin M (m_div M dLon (Fin 2))));
          c = m_mul M (Fin 2) (m_atan2 M (m_sqrt M a) (m_sqrt M (m_sub M (Fin 1) a)));
          distance = m_mul M R c
      in m_div M (m_round M (m_mul M distance (Fin 100))) (Fin 100))"

text \<open>
  The guards below take the distance function as an argument, so what is proved about
  them holds for every distance function, \<open>calculateDistance M\<close> for the engine's
  own \<open>M\<close> included.
\<close>

text \<open>
  One engine to run the guards on concrete requests: \<open>exact_math\<close> computes without
  rounding on finite numbers and returns NaN everywhere else (a negative square root,
  a division by zero, a NaN or infinite operand). It is used at two kinds of points
  only: two equal points, where every term of the formula is zero, and the points
  (0, 0) and (0, 180), half the globe apart.
\<close>

fun lift1 :: "(real \<Rightarrow> real) \<Rightarrow> jsnum \<Rightarrow> jsnum" where
  "lift1 f (Fin x) = Fin (f x)"
| "lift1 f _ = NaN"

fun lift2 :: "(real \<Rightarrow> real \<Rightarrow> real) \<Rightarrow> jsnum \<Rightarrow> jsnum \<Rightarrow> jsnum" where
  "lift2 f (Fin x) (Fin y) = Fin (f x y)"
| "lift2 f _ _ = NaN"

fun exact_div :: "jsnum \<Rightarrow> jsnum \<Rightarrow> jsnum" where
  "exact_div (Fin x) (Fin y) = (if y = 0 then NaN else Fin (x / y))"
| "exact_div _ _ = NaN"

fun exact_sqrt :: "jsnum \<Rightarrow> jsnum" where
  "exact_sqrt (Fin x) = (if x < 0 then NaN else Fin (sqrt x))"
| "exact_sqrt _ = NaN"

text \<open>\<^verbatim>\<open>Math.atan2(y, x)\<close> on finite arguments (signed zeros not distinguished).\<close>

definition atan2 :: "real \<Rightarrow> real \<Rightarrow> real" where
  "atan2 y x =
     (if 0 < x then arctan (y / x)
      else if x < 0 \<and> 0 \<le> y then arctan (y / x) + pi
      else if x < 0 then arctan (y / x) - pi
      else if 0 < y then pi / 2
      else if y < 0 then - (pi / 2)
      else 0)"

text \<open>\<^verbatim>\<open>Math.round\<close>: the nearest integer, halves upwards.\<close>

definition Math_round :: "real \<Rightarrow> real" where
  "Math_round x = of_int \<lfloor>x + 1 / 2\<rfloor>"

definition exact_math :: js_math where
  "exact_math =
     \<lparr>m_PI = Fin pi, m_add = lift2 (+), m_sub = lift2 (-), m_mul = lift2 (*),
      m_div = exact_div, m_sin = lift1 sin, m_cos = lift1 cos, m_sqrt = exact_sqrt,
      m_atan2 = lift2 atan2, m_round = lift1 Math_round\<rparr>"

type_synonym distance_fn = "jsnum \<Rightarrow> jsnum \<Rightarrow> jsnum \<Rightarrow> jsnum \<Rightarrow> jsnum"

section \<open>Issues and requests\<close>

text \<open>
  A populated user reference (\<^verbatim>\<open>reportedBy\<close>, \<^verbatim>\<open>comment.user\<close>,
  \<^verbatim>\<open>log.actor\<close>): \<open>ref_id\<close> is \<^verbatim>\<open>_id\<close>; a field that is null or absent is
  \<open>None\<close>.
\<close>

record userRef =
  ref_id :: "string option"
  ref_username :: "string option"
  ref_email :: "string option"

record comment =
  user :: "userRef option"
  username :: "string option"
  content :: string

record logEntry =
  actor :: "userRef option"
  actorName :: "string option"
  action :: string

text \<open>
  \<^verbatim>\<open>location.coordinates\<close> is \<^verbatim>\<open>[lng, lat]\<close>; \<open>Some (lng, lat)\<close> holds its
  first two entries as numbers.
\<close>

record geo =
  coordinates :: "(jsnum \<times> jsnum) option"

record issue =
  issue_id :: string
  title :: string
  location :: "geo option"
  reportedBy :: "userRef option"
  reporterName :: "string option"
  isAnonymous :: bool
  isHidden :: bool
  comments :: "comment list option"
  activityLog :: "logEntry list option"

text \<open>\<^verbatim>\<open>req.user\<close>\<close>

record caller =
  caller_id :: string
  role :: string

text \<open>
  \<^verbatim>\<open>req.query.bounds\<close> of the map route: missing or empty, a string on which
  \<^verbatim>\<open>JSON.parse\<close> throws, or a parsed value with the numbers \<^verbatim>\<open>parseFloat\<close> reads
  from its \<^verbatim>\<open>north\<close>, \<^verbatim>\<open>south\<close>, \<^verbatim>\<open>east\<close> and \<^verbatim>\<open>west\<close>.
\<close>

datatype qbounds = NoBounds | BadJson | Box (north: jsnum) (south: jsnum) (east: jsnum) (west: jsnum)

record request =
  http_method :: string
  path :: string
  params_id :: "string option"
  latitude :: qval
  longitude :: qval
  distance :: qval
  category :: "string option"
  status :: "string option"
  page :: "string option"
  limit :: "string option"
  sortBy :: "string option"
  sortOrder :: "string option"
  req_user :: "caller option"
  body_location :: "geo option"
  bounds :: qbounds
  validatedLocation :: "(jsnum \<times> jsnum) option"

text \<open>
  \<open>validatedLocation\<close> is the field enforceDistanceRestrictions attaches to the request,
  as (latitude, longitude). \<open>path\<close> is \<^verbatim>\<open>req.path\<close>, relative to the router's mount
  point. The query values the code never reads as numbers (\<open>category\<close> to
  \<open>sortOrder\<close>) are kept as strings, \<open>None\<close> when missing.
\<close>

text \<open>\<^verbatim>\<open>Issue.findById\<close>: the storage collaborator, a finite map from ids to issues.\<close>

type_synonym store = "string \<rightharpoonup> issue"

section \<open>Single-item read: the controller (issueController.getIssue)\<close>

text \<open>The coordinate test shared by the handlers and by enforceLocationRestrictions.\<close>

definition invalid_coordinates :: "jsnum \<Rightarrow> jsnum \<Rightarrow> bool" where
  "invalid_coordinates lat lng =
     (isNaN lat \<or> isNaN lng \<or> js_lt lat (Fin (- 90)) \<or> js_gt lat (Fin 90) \<or>
      js_lt lng (Fin (- 180)) \<or> js_gt lng (Fin 180))"

text \<open>The reporter put in place of an anonymous one.\<close>

definition anonymous_reporter :: userRef where
  "anonymous_reporter = \<lparr>ref_id = None, ref_username = Some ''Anonymous'', ref_email = None\<rparr>"

text \<open>The view built by getIssue once access is granted (lines 398-430).\<close>

definition processIssue :: "issue \<Rightarrow> issue" where
  "processIssue i =
     (let p = (case reportedBy i of
                 None \<Rightarrow> i\<lparr>reportedBy := Some anonymous_reporter, reporterName := Some ''Anonymous''\<rparr>
               | Some r \<Rightarrow>
                   if isAnonymous i
                   then i\<lparr>reportedBy := Some anonymous_reporter, reporterName := Some ''Anonymous''\<rparr>
                   else i\<lparr>reporterName := ref_username r\<rparr>)
      in case comments p of
           None \<Rightarrow> p
         | Some cs \<Rightarrow> p\<lparr>comments := Some (map (\<lambda>c. c\<lparr>username := str_or (username c) ''Anonymous''\<rparr>) cs)\<rparr>)"

record issueResponse =
  res_issue :: issue
  res_distance :: jsnum

definition getIssue :: "distance_fn \<Rightarrow> env \<Rightarrow> store \<Rightarrow> request \<Rightarrow> error + issueResponse" where
  "getIssue calc e findById req =
     (if \<not> truthy (latitude req) \<or> \<not> truthy (longitude req) then
        Inl (AppError [Lit ''Location coordinates (latitude, longitude) are required for security''] 400)
      else
        let userLat = parseFloat (latitude req);
            userLng = parseFloat (longitude req);
            maxAllowed = maxAllowedDistance e
        in if invalid_coordinates userLat userLng then
             Inl (AppError [Lit ''Invalid location coordinates provided''] 400)
           else
             case (case params_id req of None \<Rightarrow> None | Some k \<Rightarrow> findById k) of
               None \<Rightarrow> Inl (AppError [Lit ''Issue not found''] 404)
             | Some i \<Rightarrow>
                 if isHidden i \<and> (case req_user req of None \<Rightarrow> True | Some u \<Rightarrow> role u \<noteq> ''admin'') then
                   Inl (AppError [Lit ''Issue not found''] 404)
                 else
                   (case (case location i of None \<Rightarrow> None | Some g \<Rightarrow> coordinates g) of
                      None \<Rightarrow> Inl TypeError
                    | Some (issueLng, issueLat) \<Rightarrow>
                        if js_gt (calc userLat userLng issueLat issueLng) maxAllowed then
                          Inl (AppError
                                 [Lit ''This issue is outside your allowed area. You can only access issues within '',
                                  Num maxAllowed, Lit ''km of your location.''] 403)
                        else
                          Inr \<lparr>res_issue = processIssue i,
                               res_distance = calc userLat userLng issueLat issueLng\<rparr>))"

section \<open>Distance middleware (distanceMiddleware.js)\<close>

text \<open>
  A middleware either calls \<^verbatim>\<open>next(err)\<close> (\<open>Inl err\<close>) or \<^verbatim>\<open>next()\<close> with the
  request as it leaves it (\<open>Inr req\<close>).
\<close>

text \<open>\<^verbatim>\<open>s.includes(t)\<close>\<close>

definition str_includes :: "string \<Rightarrow> string \<Rightarrow> bool" where
  "str_includes s t = sublist t s"

text \<open>The range test of enforceDistanceRestrictions and of the POST branch: no NaN test.\<close>

definition out_of_range :: "jsnum \<Rightarrow> jsnum \<Rightarrow> bool" where
  "out_of_range lat lng =
     (js_lt lat (Fin (- 90)) \<or> js_gt lat (Fin 90) \<or> js_lt lng (Fin (- 180)) \<or> js_gt lng (Fin 180))"

definition enforceDistanceRestrictions :: "env \<Rightarrow> request \<Rightarrow> error + request" where
  "enforceDistanceRestrictions e req =
     (let maxAllowed = maxAllowedDistance e
      in if truthy (distance req) \<and> js_gt (parseFloat (distance req)) maxAllowed then
           Inl (AppError [Lit ''Distance cannot exceed '', Num maxAllowed,
                          Lit ''km for security reasons''] 400)
         else if truthy (latitude req) \<and> truthy (longitude req) then
           let lat = parseFloat (latitude req);
               lng = parseFloat (longitude req)
           in if out_of_range lat lng then
                Inl (AppError [Lit ''Invalid coordinates provided''] 400)
              else Inr (req\<lparr>validatedLocation := Some (lat, lng)\<rparr>)
         else Inr req)"

definition validateUserLocation :: "request \<Rightarrow> error + request" where
  "validateUserLocation req =
     (if str_includes (path req) ''/issues'' \<and> \<not> str_includes (path req) ''/stats'' \<and>
         (\<not> truthy (latitude req) \<or> \<not> truthy (longitude req)) then
        Inl (AppError [Lit ''Location coordinates (latitude, longitude) are required for security''] 400)
      else Inr req)"

text \<open>
  filterIssuesByDistance replaces \<^verbatim>\<open>res.json\<close>; the model is the function it installs,
  applied to the body the handler sends. \<open>data_issues\<close> is \<^verbatim>\<open>data.data.issues\<close>
  (\<open>None\<close> when \<^verbatim>\<open>data\<close>, \<^verbatim>\<open>data.data\<close> or the list is missing),
  \<open>data_issue\<close> is \<^verbatim>\<open>data.data.issue\<close>.
\<close>

record body =
  results :: "nat option"
  data_issues :: "issue list option"
  data_issue :: "issue option"

text \<open>The coordinates of an issue, when \<^verbatim>\<open>issue.location\<close> and its coordinates are set.\<close>

definition issue_coordinates :: "issue \<Rightarrow> (jsnum \<times> jsnum) option" where
  "issue_coordinates i = (case location i of None \<Rightarrow> None | Some g \<Rightarrow> coordinates g)"

definition effective_radius :: "env \<Rightarrow> request \<Rightarrow> jsnum" where
  "effective_radius e req =
     Math_min (parseFloat (with_default (distance req) (Text (Fin 5)))) (maxAllowedDistance e)"

definition keep_issue :: "distance_fn \<Rightarrow> jsnum \<Rightarrow> jsnum \<Rightarrow> jsnum \<Rightarrow> issue \<Rightarrow> bool" where
  "keep_issue calc userLat userLng maxDistance i =
     (case issue_coordinates i of
        None \<Rightarrow> False
      | Some (issueLng, issueLat) \<Rightarrow> js_le (calc userLat userLng issueLat issueLng) maxDistance)"

definition filterIssuesByDistance :: "distance_fn \<Rightarrow> env \<Rightarrow> request \<Rightarrow> body \<Rightarrow> body" where
  "filterIssuesByDistance calc e req data =
     (let maxDistance = effective_radius e req
      in case data_issues data of
           None \<Rightarrow> data
         | Some xs \<Rightarrow>
             if truthy (latitude req) \<and> truthy (longitude req) then
               let userLat = parseFloat (latitude req);
                   userLng = parseFloat (longitude req);
                   kept = filter (keep_issue calc userLat userLng maxDistance) xs
               in data\<lparr>data_issues := Some kept, results := Some (length kept)\<rparr>
             else data)"

text \<open>\<^verbatim>\<open>req.params.id\<close> is truthy when it is a non-empty string.\<close>

fun truthy_id :: "string option \<Rightarrow> bool" where
  "truthy_id None = False"
| "truthy_id (Some s) = (s \<noteq> [])"

definition out_of_area_message :: "part list" where
  "out_of_area_message =
     [Lit ''This issue is outside your allowed area. You can only access issues within 5km of your location.'']"

definition preventOutOfAreaAccess :: "distance_fn \<Rightarrow> env \<Rightarrow> store \<Rightarrow> request \<Rightarrow> error + request" where
  "preventOutOfAreaAccess calc e findById req =
     (if truthy_id (params_id req) \<and> truthy (latitude req) \<and> truthy (longitude req) then
        case (case params_id req of None \<Rightarrow> None | Some k \<Rightarrow> findById k) of
          None \<Rightarrow> Inr req
        | Some i \<Rightarrow>
            (case issue_coordinates i of
               None \<Rightarrow> Inr req
             | Some (issueLng, issueLat) \<Rightarrow>
                 let userLat = parseFloat (latitude req);
                     userLng = parseFloat (longitude req);
                     d = calc userLat userLng issueLat issueLng;
                     maxDistance = maxAllowedDistance e
                 in if js_gt d maxDistance then Inl (AppError out_of_area_message 403)
                    else Inr req)
      else Inr req)"

definition enforceLocationRestrictions :: "request \<Rightarrow> error + request" where
  "enforceLocationRestrictions req =
     (if str_includes (path req) ''/admin'' \<or> str_includes (path req) ''/stats'' then Inr req
      else if http_method req = ''POST'' \<and> path req = ''/'' \<and> (case body_location req of None \<Rightarrow> None | Some g \<Rightarrow> coordinates g) = None then
        Inl (AppError [Lit ''Location coordinates are required for issue reporting''] 400)
      else if http_method req = ''POST'' \<and> path req = ''/'' \<and>
              (case (case body_location req of None \<Rightarrow> None | Some g \<Rightarrow> coordinates g) of
                 None \<Rightarrow> False | Some (lng, lat) \<Rightarrow> out_of_range lat lng) then
        Inl (AppError [Lit ''Invalid location coordinates provided''] 400)
      else if http_method req = ''GET'' \<and> \<not> str_includes (path req) ''/stats'' \<and>
              (\<not> truthy (latitude req) \<or> \<not> truthy (longitude req)) then
        Inl (AppError [Lit ''Location coordinates (latitude, longitude) are required for security and privacy''] 400)
      else if http_method req = ''GET'' \<and> \<not> str_includes (path req) ''/stats'' \<and>
              invalid_coordinates (parseFloat (latitude req)) (parseFloat (longitude req)) then
        Inl (AppError [Lit ''Invalid location coordinates provided''] 400)
      else Inr req)"

section \<open>List and map reads: the controller up to the storage query\<close>

text \<open>
  getIssues and getIssuesForMap check the caller's location, then build the filter
  they hand to \<^verbatim>\<open>Issue.find\<close>. The model is the handler up to that call: the error it
  raises, or the geospatial part of the filter (category, status, search, sorting and
  paging are passed through unchanged and are left out).
\<close>

text \<open>
  \<open>Near center km\<close> is the \<^verbatim>\<open>$near\<close> filter around \<open>center\<close>, kept with its
  radius in kilometres: \<^verbatim>\<open>$maxDistance\<close> is that radius times 1000.
  \<open>GeoWithin\<close> is the \<^verbatim>\<open>$geoWithin\<close> box that replaces it when the map request
  carries bounds.
\<close>

datatype locationFilter =
    Near (center: "jsnum \<times> jsnum") (radiusKm: jsnum)
  | GeoWithin "jsnum \<times> jsnum" "jsnum \<times> jsnum"

record issuesFilter =
  filter_isHidden :: bool
  filter_location :: locationFilter

definition requestedDistance :: "env \<Rightarrow> request \<Rightarrow> jsnum" where
  "requestedDistance e req =
     Math_min (parseFloat (with_default (distance req) (DEFAULT_SEARCH_RADIUS e)))
              (maxAllowedDistance e)"

definition getIssues :: "env \<Rightarrow> request \<Rightarrow> error + issuesFilter" where
  "getIssues e req =
     (if \<not> truthy (latitude req) \<or> \<not> truthy (longitude req) then
        Inl (AppError [Lit ''Location coordinates (latitude, longitude) are required for security and privacy''] 400)
      else
        let userLat = parseFloat (latitude req);
            userLng = parseFloat (longitude req)
        in if invalid_coordinates userLat userLng then
             Inl (AppError [Lit ''Invalid location coordinates provided''] 400)
           else
             Inr \<lparr>filter_isHidden = False,
                  filter_location = Near (userLng, userLat) (requestedDistance e req)\<rparr>)"

definition getIssuesForMap :: "env \<Rightarrow> request \<Rightarrow> error + issuesFilter" where
  "getIssuesForMap e req =
     (if \<not> truthy (latitude req) \<or> \<not> truthy (longitude req) then
        Inl (AppError [Lit ''Location coordinates (latitude, longitude) are required for map access''] 400)
      else
        let userLat = parseFloat (latitude req);
            userLng = parseFloat (longitude req)
        in if invalid_coordinates userLat userLng then
             Inl (AppError [Lit ''Invalid location coordinates provided''] 400)
           else
             Inr \<lparr>filter_isHidden = False,
                  filter_location =
                    (case bounds req of
                       Box n s ea w \<Rightarrow> GeoWithin (w, s) (ea, n)
                     | _ \<Rightarrow> Near (userLng, userLat) (requestedDistance e req))\<rparr>)"

section \<open>Anonymity middleware (anonymousMiddleware.js)\<close>

definition filterComment :: "comment \<Rightarrow> comment" where
  "filterComment c =
     c\<lparr>username := str_or (username c) ''Anonymous'',
       user := (case user c of
                  None \<Rightarrow> None
                | Some u \<Rightarrow> Some \<lparr>ref_id = ref_id u,
                                  ref_username = str_or (username c) ''Anonymous'',
                                  ref_email = None\<rparr>)\<rparr>"

definition filterLog :: "logEntry \<Rightarrow> logEntry" where
  "filterLog l =
     l\<lparr>actorName := str_or (actorName l) ''System'',
       actor := (case actor l of
                   None \<Rightarrow> None
                 | Some u \<Rightarrow> Some \<lparr>ref_id = ref_id u,
                                   ref_username = str_or (actorName l) ''System'',
                                   ref_email = None\<rparr>)\<rparr>"

text \<open>The second argument is the current user, which the function never reads.\<close>

definition filterAnonymousData :: "issue \<Rightarrow> caller option \<Rightarrow> issue" where
  "filterAnonymousData i u =
     (let f1 = (case reportedBy i of
                  None \<Rightarrow> i\<lparr>reportedBy := Some anonymous_reporter,
                            reporterName := Some ''Anonymous'', isAnonymous := True\<rparr>
                | Some r \<Rightarrow>
                    if isAnonymous i
                    then i\<lparr>reportedBy := Some anonymous_reporter,
                           reporterName := Some ''Anonymous'', isAnonymous := True\<rparr>
                    else i\<lparr>reporterName := ref_username r, isAnonymous := False\<rparr>);
          f2 = (case comments f1 of
                  None \<Rightarrow> f1
                | Some cs \<Rightarrow> f1\<lparr>comments := Some (map filterComment cs)\<rparr>)
      in case activityLog f2 of
           None \<Rightarrow> f2
         | Some ls \<Rightarrow> f2\<lparr>activityLog := Some (map filterLog ls)\<rparr>)"

definition filterMultipleIssues :: "issue list \<Rightarrow> caller option \<Rightarrow> issue list" where
  "filterMultipleIssues xs u = map (\<lambda>i. filterAnonymousData i u) xs"

text \<open>The function applyAnonymousFiltering installs as \<^verbatim>\<open>res.json\<close>.\<close>

definition applyAnonymousFiltering :: "request \<Rightarrow> body \<Rightarrow> body" where
  "applyAnonymousFiltering req data =
     (case data_issues data of
        Some xs \<Rightarrow> data\<lparr>data_issues := Some (filterMultipleIssues xs (req_user req))\<rparr>
      | None \<Rightarrow>
          (case data_issue data of
             Some i \<Rightarrow> data\<lparr>data_issue := Some (filterAnonymousData i (req_user req))\<rparr>
           | None \<Rightarrow> data))"

text \<open>
  The per-issue step of restrictDataAccess: an issue with a reporter id is filtered
  unless the caller is that reporter (\<^verbatim>\<open>isOwner\<close>).
\<close>

definition restrictIssue :: "caller option \<Rightarrow> issue \<Rightarrow> issue" where
  "restrictIssue u i =
     (case reportedBy i of
        None \<Rightarrow> i
      | Some r \<Rightarrow>
          (case ref_id r of
             None \<Rightarrow> i
           | Some rid \<Rightarrow>
               if (case u of None \<Rightarrow> False | Some c \<Rightarrow> rid = caller_id c) then i
               else filterAnonymousData i u))"

text \<open>The function restrictDataAccess installs as \<^verbatim>\<open>res.json\<close>.\<close>

definition restrictDataAccess :: "request \<Rightarrow> body \<Rightarrow> body" where
  "restrictDataAccess req data =
     (if (case req_user req of None \<Rightarrow> False | Some c \<Rightarrow> role c = ''admin'') then data
      else data\<lparr>data_issues := map_option (map (restrictIssue (req_user req))) (data_issues data),
                data_issue := map_option (restrictIssue (req_user req)) (data_issue data)\<rparr>)"

section \<open>Request validation (validationMiddleware.js)\<close>

text \<open>
  The chains of express-validator. \<^verbatim>\<open>optional()\<close> skips a value that is
  \<^verbatim>\<open>undefined\<close>; each chain here has one test and adds its message when the test
  fails; \<^verbatim>\<open>handleValidationErrors\<close> joins the messages, in the order of the
  chains, into one 400. The tests are those of validator.js: \<^verbatim>\<open>isIn\<close> is
  membership, \<^verbatim>\<open>isFloat\<close> wants a decimal literal whose \<^verbatim>\<open>parseFloat\<close> lies
  within the bounds, \<^verbatim>\<open>isInt\<close> an integer literal with no leading zero,
  \<^verbatim>\<open>isMongoId\<close> 24 characters that form a hexadecimal string.
\<close>

fun join_messages :: "string list \<Rightarrow> string" where
  "join_messages [] = []"
| "join_messages [m] = m"
| "join_messages (m # ms) = m @ ''. '' @ join_messages ms"

definition handleValidationErrors :: "request \<Rightarrow> string list \<Rightarrow> error + request" where
  "handleValidationErrors req errorMessages =
     (if errorMessages = [] then Inr req
      else Inl (AppError [Lit (join_messages errorMessages)] 400))"

definition isFloat :: "real \<Rightarrow> real \<Rightarrow> qval \<Rightarrow> bool" where
  "isFloat lo hi v = (case v of Text n \<Rightarrow> js_le (Fin lo) n \<and> js_le n (Fin hi) | _ \<Rightarrow> False)"

definition is_digit :: "char \<Rightarrow> bool" where
  "is_digit c = (c \<in> set ''0123456789'')"

definition is_hex_digit :: "char \<Rightarrow> bool" where
  "is_hex_digit c = (c \<in> set ''0123456789abcdefABCDEF'')"

text \<open>The digits of a string after an optional sign.\<close>

fun unsigned :: "string \<Rightarrow> string" where
  "unsigned [] = []"
| "unsigned (c # cs) = (if c = CHR ''+'' \<or> c = CHR ''-'' then cs else c # cs)"

fun int_literal :: "string \<Rightarrow> bool" where
  "int_literal [] = False"
| "int_literal (c # cs) = ((c = CHR ''0'' \<and> cs = []) \<or>
                           (c \<in> set ''123456789'' \<and> list_all is_digit cs))"

definition digits_value :: "string \<Rightarrow> int" where
  "digits_value ds = foldl (\<lambda>n c. 10 * n + (int (of_char c) - 48)) 0 ds"

definition parseInt :: "string \<Rightarrow> int" where
  "parseInt s = (case s of
                   c # cs \<Rightarrow> if c = CHR ''-'' then - digits_value cs else digits_value (unsigned s)
                 | [] \<Rightarrow> 0)"

text \<open>\<^verbatim>\<open>isInt({ min, max })\<close>; \<open>hi = None\<close> when no maximum is given.\<close>

definition isInt :: "int \<Rightarrow> int option \<Rightarrow> string \<Rightarrow> bool" where
  "isInt lo hi s =
     (int_literal (unsigned s) \<and> lo \<le> parseInt s \<and>
      (case hi of None \<Rightarrow> True | Some h \<Rightarrow> parseInt s \<le> h))"

text \<open>\<^verbatim>\<open>isHexadecimal\<close>: hexadecimal digits, at least one, after an optional 0x or 0h.\<close>

fun isHexadecimal :: "string \<Rightarrow> bool" where
  "isHexadecimal (c # d # cs) =
     ((c = CHR ''0'' \<and> d \<in> set ''xXhH'' \<and> cs \<noteq> [] \<and> list_all is_hex_digit cs) \<or>
      list_all is_hex_digit (c # d # cs))"
| "isHexadecimal cs = (cs \<noteq> [] \<and> list_all is_hex_digit cs)"

definition isMongoId :: "string \<Rightarrow> bool" where
  "isMongoId s = (isHexadecimal s \<and> length s = 24)"

text \<open>One chain on a numeric query value, and one on a string query value.\<close>

definition check_query :: "(qval \<Rightarrow> bool) \<Rightarrow> string \<Rightarrow> qval \<Rightarrow> string list" where
  "check_query test msg v = (if v = Undefined \<or> test v then [] else [msg])"

definition check_string :: "(string \<Rightarrow> bool) \<Rightarrow> string \<Rightarrow> string option \<Rightarrow> string list" where
  "check_string test msg v = (case v of None \<Rightarrow> [] | Some s \<Rightarrow> if test s then [] else [msg])"

definition validateIssueId :: "request \<Rightarrow> error + request" where
  "validateIssueId req =
     handleValidationErrors req
       (case params_id req of
          None \<Rightarrow> [''Invalid issue ID'']
        | Some k \<Rightarrow> if isMongoId k then [] else [''Invalid issue ID''])"

definition validateIssueFilters :: "request \<Rightarrow> error + request" where
  \<open>validateIssueFilters req =
     handleValidationErrors req
       (check_string (\<lambda>s. s \<in> set [''Roads'', ''Lighting'', ''Water Supply'', ''Cleanliness'',
                                         ''Public Safety'', ''Obstructions''])
          ''Invalid category filter'' (category req) @
        check_string (\<lambda>s. s \<in> set [''Reported'', ''In Progress'', ''Resolved'', ''Rejected''])
          ''Invalid status filter'' (status req) @
        check_query (isFloat (1 / 10) 50)
          ''Distance must be between 0.1 and 50 kilometers'' (distance req) @
        check_query (isFloat (- 90) 90) ''Invalid latitude'' (latitude req) @
        check_query (isFloat (- 180) 180) ''Invalid longitude'' (longitude req) @
        check_string (isInt 1 None) ''Page must be a positive integer'' (page req) @
        check_string (isInt 1 (Some 100)) ''Limit must be between 1 and 100'' (limit req) @
        check_string (\<lambda>s. s \<in> set [''createdAt'', ''updatedAt'', ''priority'', ''status'',
                                         ''upvoteCount''])
          ''Invalid sort field'' (sortBy req) @
        check_string (\<lambda>s. s \<in> set [''asc'', ''desc''])
          ''Sort order must be either "asc" or "desc"'' (sortOrder req))\<close>

section \<open>Routes (issueRoutes.js)\<close>

text \<open>
  A route runs its middleware in order and stops at the first error.
  applyAnonymousFiltering and addDistanceInfo are left out of the chains: they call
  \<^verbatim>\<open>next()\<close> at once and only rewrite the body of a successful response.
\<close>

fun andThen :: "error + 'a \<Rightarrow> ('a \<Rightarrow> error + 'b) \<Rightarrow> error + 'b" where
  "andThen (Inl err) f = Inl err"
| "andThen (Inr x) f = f x"

text \<open>\<^verbatim>\<open>router.get('/', ...)\<close>\<close>

definition route_getIssues :: "env \<Rightarrow> request \<Rightarrow> error + issuesFilter" where
  "route_getIssues e req =
     andThen (andThen (andThen (andThen (validateIssueFilters req) enforceLocationRestrictions)
                               validateUserLocation)
                      (enforceDistanceRestrictions e))
             (getIssues e)"

text \<open>\<^verbatim>\<open>router.get('/map', ...)\<close>\<close>

definition route_getIssuesForMap :: "env \<Rightarrow> request \<Rightarrow> error + issuesFilter" where
  "route_getIssuesForMap e req =
     andThen (andThen (andThen (andThen (validateIssueFilters req) enforceLocationRestrictions)
                               validateUserLocation)
                      (enforceDistanceRestrictions e))
             (getIssuesForMap e)"

text \<open>\<^verbatim>\<open>router.get('/:id', ...)\<close>\<close>

definition route_getIssue :: "distance_fn \<Rightarrow> env \<Rightarrow> store \<Rightarrow> request \<Rightarrow> error + issueResponse" where
  "route_getIssue calc e findById req =
     andThen (andThen (andThen (andThen (validateIssueId req) enforceLocationRestrictions)
                               validateUserLocation)
                      (preventOutOfAreaAccess calc e findById))
             (getIssue calc e findById)"

section \<open>Sample configuration, issues and requests\<close>

text \<open>
  Concrete values on which the theorems below are run: the radius limit unset and
  raised to 10, an issue at latitude 0, longitude 0, the same issue on the far side of
  the globe (longitude 180), at latitude 12 and without a location, a read of one
  issue, a list request and a map request.
\<close>

definition env_unset :: env where
  "env_unset = \<lparr>MAX_SEARCH_RADIUS = NaN, DEFAULT_SEARCH_RADIUS = Undefined\<rparr>"

definition env_10 :: env where
  "env_10 = \<lparr>MAX_SEARCH_RADIUS = Fin 10, DEFAULT_SEARCH_RADIUS = Undefined\<rparr>"

definition id_here :: string where
  "id_here = ''64f8a1b2c3d4e5f6a7b8c9d0''"

definition id_far :: string where
  "id_far = ''64f8a1b2c3d4e5f6a7b8c9d1''"

definition id_unlocated :: string where
  "id_unlocated = ''64f8a1b2c3d4e5f6a7b8c9d2''"

definition id_north :: string where
  "id_north = ''64f8a1b2c3d4e5f6a7b8c9d3''"

definition alice_id :: string where
  "alice_id = ''64f8a1b2c3d4e5f6a7b8c9a1''"

definition bob_id :: string where
  "bob_id = ''64f8a1b2c3d4e5f6a7b8c9a2''"

definition alice :: userRef where
  "alice = \<lparr>ref_id = Some alice_id, ref_username = Some ''alice'',
            ref_email = Some ''alice@example.org''\<rparr>"

definition caller_bob :: caller where
  "caller_bob = \<lparr>caller_id = bob_id, role = ''user''\<rparr>"



definition bob_comment :: comment where
  "bob_comment = \<lparr>user = Some \<lparr>ref_id = Some bob_id, ref_username = Some ''bob'', ref_email = None\<rparr>,
                   username = Some ''bob'', content = ''Still broken''\<rparr>"

definition issue_here :: issue where
  "issue_here = \<lparr>issue_id = id_here, title = ''Broken street light'',
                  location = Some \<lparr>coordinates = Some (Fin 0, Fin 0)\<rparr>,
                  reportedBy = Some alice, reporterName = None, isAnonymous = False,
                  isHidden = False, comments = Some [bob_comment], activityLog = None\<rparr>"

definition issue_far :: issue where
  "issue_far = issue_here\<lparr>issue_id := id_far,
                            location := Some \<lparr>coordinates = Some (Fin 180, Fin 0)\<rparr>\<rparr>"

definition issue_unlocated :: issue where
  "issue_unlocated = issue_here\<lparr>issue_id := id_unlocated, location := None\<rparr>"

definition issue_north :: issue where
  "issue_north = issue_here\<lparr>issue_id := id_north,
                              location := Some \<lparr>coordinates = Some (Fin 0, Fin 12)\<rparr>\<rparr>"


definition issue_hidden_far :: issue where
  "issue_hidden_far = issue_far\<lparr>isHidden := True\<rparr>"

definition issue_anonymous :: issue where
  "issue_anonymous = issue_here\<lparr>isAnonymous := True, reportedBy := None\<rparr>"

definition sample_store :: store where
  "sample_store = [id_here \<mapsto> issue_here, id_far \<mapsto> issue_far, id_unlocated \<mapsto> issue_unlocated]"

text \<open>\<^verbatim>\<open>GET /api/issues/<k>?latitude=..&longitude=..\<close> by caller \<open>u\<close>.\<close>

definition request_from :: "qval \<Rightarrow> qval \<Rightarrow> string \<Rightarrow> caller option \<Rightarrow> request" where
  "request_from lat lng k u =
     \<lparr>http_method = ''GET'', path = CHR ''/'' # k, params_id = Some k,
      latitude = lat, longitude = lng, distance = Undefined,
      category = None, status = None, page = None, limit = None, sortBy = None,
      sortOrder = None, req_user = u, body_location = None, bounds = NoBounds,
      validatedLocation = None\<rparr>"

text \<open>\<^verbatim>\<open>GET /api/issues/<k>?latitude=0&longitude=0\<close> by caller \<open>u\<close>.\<close>

definition request_at_origin :: "string \<Rightarrow> caller option \<Rightarrow> request" where
  "request_at_origin k u = request_from (Text (Fin 0)) (Text (Fin 0)) k u"

text \<open>\<^verbatim>\<open>GET /api/issues?latitude=..&longitude=..&distance=..\<close>\<close>

definition list_request :: "qval \<Rightarrow> qval \<Rightarrow> qval \<Rightarrow> request" where
  "list_request lat lng d =
     \<lparr>http_method = ''GET'', path = ''/'', params_id = None,
      latitude = lat, longitude = lng, distance = d,
      category = None, status = None, page = None, limit = None, sortBy = None,
      sortOrder = None, req_user = None, body_location = None, bounds = NoBounds,
      validatedLocation = None\<rparr>"

text \<open>\<^verbatim>\<open>GET /api/issues/map?latitude=..&longitude=..&distance=..&bounds=..\<close>\<close>

definition map_request :: "qval \<Rightarrow> qval \<Rightarrow> qval \<Rightarrow> qbounds \<Rightarrow> request" where
  "map_request lat lng d b = (list_request lat lng d)\<lparr>path := ''/map'', bounds := b\<rparr>"

section \<open>Comparisons, two distances and the sample data\<close>

lemma js_le_Fin: "js_le (Fin a) (Fin b) = (a \<le> b)"
  by (auto simp: js_le_def)

lemma js_gt_Fin: "js_gt (Fin a) (Fin b) = (b < a)"
  by (simp add: js_gt_def)

lemma Math_min_Fin: "Math_min (Fin a) (Fin b) = Fin (min a b)"
  by (simp add: Math_min_def min_def)

lemma distance_same: "calculateDistance exact_math (Fin lat) (Fin lon) (Fin lat) (Fin lon) = Fin 0"
  by (simp add: calculateDistance_def exact_math_def Let_def toRadians_def atan2_def Math_round_def)

lemma Math_round_ge: "x - 1 / 2 \<le> Math_round x"
  unfolding Math_round_def by linarith

lemma distance_antipode:
  "calculateDistance exact_math (Fin 0) (Fin 0) (Fin 0) (Fin 180) = Fin (Math_round (637100 * pi) / 100)"
  by (simp add: calculateDistance_def exact_math_def Let_def toRadians_def atan2_def)

lemma antipode_far: "12000 < Math_round (637100 * pi) / 100"
proof -
  have "637100 * 2 \<le> 637100 * pi" using pi_ge_two by simp
  moreover have "637100 * pi - 1 / 2 \<le> Math_round (637100 * pi)" by (rule Math_round_ge)
  ultimately show ?thesis by simp
qed

lemma antipode_gt:
  "m \<le> 12000 \<Longrightarrow> js_gt (calculateDistance exact_math (Fin 0) (Fin 0) (Fin 0) (Fin 180)) (Fin m)"
  using antipode_far by (simp add: distance_antipode js_gt_def)

lemma antipode_not_le:
  "m \<le> 12000 \<Longrightarrow> \<not> js_le (calculateDistance exact_math (Fin 0) (Fin 0) (Fin 0) (Fin 180)) (Fin m)"
  using antipode_far by (simp add: distance_antipode js_le_def)

lemma valid_origin: "\<not> invalid_coordinates (Fin 0) (Fin 0)"
  by (simp add: invalid_coordinates_def isNaN_def js_gt_def)

lemma max_unset: "maxAllowedDistance env_unset = Fin 5"
  by (simp add: maxAllowedDistance_def env_unset_def or_default_def)

lemma max_10: "maxAllowedDistance env_10 = Fin 10"
  by (simp add: maxAllowedDistance_def env_10_def or_default_def)

lemma id_far_nonempty: "id_far \<noteq> []"
  by (simp add: id_far_def)

lemma sample_ids_valid: "isMongoId id_here" "isMongoId id_far" "isMongoId id_north"
  by (simp_all add: isMongoId_def id_here_def id_far_def id_north_def is_hex_digit_def)

lemma sample_store_far: "sample_store id_far = Some issue_far"
  by (simp add: sample_store_def id_far_def id_unlocated_def)

lemma sample_store_unlocated: "sample_store id_unlocated = Some issue_unlocated"
  by (simp add: sample_store_def)

lemma coordinates_here: "issue_coordinates issue_here = Some (Fin 0, Fin 0)"
  by (simp add: issue_coordinates_def issue_here_def)

lemma coordinates_far: "issue_coordinates issue_far = Some (Fin 180, Fin 0)"
  by (simp add: issue_coordinates_def issue_far_def issue_here_def)

lemma coordinates_unlocated: "issue_coordinates issue_unlocated = None"
  by (simp add: issue_coordinates_def issue_unlocated_def)

lemma request_from_simps:
  "http_method (request_from lat lng k u) = ''GET''"
  "path (request_from lat lng k u) = CHR ''/'' # k"
  "params_id (request_from lat lng k u) = Some k"
  "latitude (request_from lat lng k u) = lat"
  "longitude (request_from lat lng k u) = lng"
  "distance (request_from lat lng k u) = Undefined"
  "req_user (request_from lat lng k u) = u"
  by (simp_all add: request_from_def)

lemma request_at_origin_simps:
  "http_method (request_at_origin k u) = ''GET''"
  "path (request_at_origin k u) = CHR ''/'' # k"
  "params_id (request_at_origin k u) = Some k"
  "latitude (request_at_origin k u) = Text (Fin 0)"
  "longitude (request_at_origin k u) = Text (Fin 0)"
  "distance (request_at_origin k u) = Undefined"
  "req_user (request_at_origin k u) = u"
  by (simp_all add: request_at_origin_def request_from_def)

lemma list_request_simps:
  "http_method (list_request lat lng d) = ''GET''"
  "path (list_request lat lng d) = ''/''"
  "latitude (list_request lat lng d) = lat"
  "longitude (list_request lat lng d) = lng"
  "distance (list_request lat lng d) = d"
  "bounds (list_request lat lng d) = NoBounds"
  "category (list_request lat lng d) = None"
  "status (list_request lat lng d) = None"
  "page (list_request lat lng d) = None"
  "limit (list_request lat lng d) = None"
  "sortBy (list_request lat lng d) = None"
  "sortOrder (list_request lat lng d) = None"
  by (simp_all add: list_request_def)

lemma map_request_simps:
  "http_method (map_request lat lng d b) = ''GET''"
  "path (map_request lat lng d b) = ''/map''"
  "latitude (map_request lat lng d b) = lat"
  "longitude (map_request lat lng d b) = lng"
  "distance (map_request lat lng d b) = d"
  "bounds (map_request lat lng d b) = b"
  "category (map_request lat lng d b) = None"
  "status (map_request lat lng d b) = None"
  "page (map_request lat lng d b) = None"
  "limit (map_request lat lng d b) = None"
  "sortBy (map_request lat lng d b) = None"
  "sortOrder (map_request lat lng d b) = None"
  by (simp_all add: map_request_def list_request_def)

lemma path_plain:
  "\<not> str_includes (CHR ''/'' # id_here) ''/admin''"
  "\<not> str_includes (CHR ''/'' # id_here) ''/stats''"
  "\<not> str_includes (CHR ''/'' # id_far) ''/admin''"
  "\<not> str_includes (CHR ''/'' # id_far) ''/stats''"
  "\<not> str_includes (CHR ''/'' # id_north) ''/admin''"
  "\<not> str_includes (CHR ''/'' # id_north) ''/stats''"
  "\<not> str_includes ''/'' ''/admin''"
  "\<not> str_includes ''/'' ''/stats''"
  "\<not> str_includes ''/'' ''/issues''"
  "\<not> str_includes ''/map'' ''/admin''"
  "\<not> str_includes ''/map'' ''/stats''"
  "\<not> str_includes ''/map'' ''/issues''"
  by (simp_all add: str_includes_def id_here_def id_far_def id_north_def sublist_code)

lemma andThen_Inr: "andThen x f = Inr y \<Longrightarrow> \<exists>z. x = Inr z \<and> f z = Inr y"
  by (cases x) auto

lemma handleValidationErrors_Inr: "handleValidationErrors req msgs = Inr req' \<Longrightarrow> req' = req"
  by (auto simp: handleValidationErrors_def split: if_splits)


lemma validateIssueFilters_Inr: "validateIssueFilters req = Inr req' \<Longrightarrow> req' = req"
  unfolding validateIssueFilters_def by (rule handleValidationErrors_Inr)

lemma enforceDistanceRestrictions_Inr:
  "enforceDistanceRestrictions e req = Inr req' \<Longrightarrow>
     latitude req' = latitude req \<and> longitude req' = longitude req \<and>
     distance req' = distance req \<and> bounds req' = bounds req \<and>
     \<not> (truthy (distance req) \<and> js_gt (parseFloat (distance req)) (maxAllowedDistance e))"
  by (auto simp: enforceDistanceRestrictions_def Let_def split: if_splits)

lemma enforceLocationRestrictions_Inr:
  "enforceLocationRestrictions req = Inr req' \<Longrightarrow> req' = req"
  by (auto simp: enforceLocationRestrictions_def split: if_splits)

lemma validateUserLocation_Inr:
  "validateUserLocation req = Inr req' \<Longrightarrow> req' = req"
  by (auto simp: validateUserLocation_def split: if_splits)

text \<open>The guards of a read route pass a request on unchanged when they accept it.\<close>

lemma enforceLocationRestrictions_pass:
  assumes "http_method req \<noteq> ''POST''" and "truthy (latitude req)" and "truthy (longitude req)"
    and "\<not> invalid_coordinates (parseFloat (latitude req)) (parseFloat (longitude req))"
  shows "enforceLocationRestrictions req = Inr req"
  using assms by (simp add: enforceLocationRestrictions_def)

lemma validateUserLocation_pass:
  assumes "truthy (latitude req)" and "truthy (longitude req)"
  shows "validateUserLocation req = Inr req"
  using assms by (simp add: validateUserLocation_def)

section \<open>The single-item read and its distance check\<close>

text \<open>
  The controller's own check: for a request with valid coordinates and a stored issue
  that is not hidden and has coordinates, a distance above the maximum gives the 403
  whose message interpolates the maximum, and a distance at most the maximum gives the
  response.
\<close>

lemma getIssue_distance_check:
  assumes "truthy (latitude req)" and "truthy (longitude req)"
    and "\<not> invalid_coordinates (parseFloat (latitude req)) (parseFloat (longitude req))"
    and "params_id req = Some k" and "findById k = Some i" and "\<not> isHidden i"
    and "issue_coordinates i = Some (issueLng, issueLat)"
  shows "(js_gt (calc (parseFloat (latitude req)) (parseFloat (longitude req)) issueLat issueLng)
               (maxAllowedDistance e) \<longrightarrow>
            getIssue calc e findById req =
              Inl (AppError [Lit ''This issue is outside your allowed area. You can only access issues within '',
                             Num (maxAllowedDistance e), Lit ''km of your location.''] 403)) \<and>
         (js_le (calc (parseFloat (latitude req)) (parseFloat (longitude req)) issueLat issueLng)
               (maxAllowedDistance e) \<longrightarrow>
            getIssue calc e findById req =
              Inr \<lparr>res_issue = processIssue i,
                   res_distance = calc (parseFloat (latitude req)) (parseFloat (longitude req))
                                       issueLat issueLng\<rparr>)"
  using assms
  by (auto simp: getIssue_def Let_def issue_coordinates_def js_le_def js_gt_def split: option.splits)

text \<open>
  Claim C1. On the route of the single-item read, preventOutOfAreaAccess runs before
  the controller and makes the same comparison. Whenever it rejects, that is whenever
  the id and the coordinates are present, the issue is found with coordinates and the
  distance exceeds the configured maximum, its error is the 403 with one fixed text
  that names 5km, whatever the configured maximum is. With the maximum set to 10 the
  message therefore does not state the maximum allowed distance; the controller's own
  check, which the request never reaches, interpolates it.
\<close>

theorem preventOutOfAreaAccess_message_fixed:
  assumes "params_id req = Some k" and "k \<noteq> []"
    and "truthy (latitude req)" and "truthy (longitude req)"
    and "findById k = Some i" and "issue_coordinates i = Some (issueLng, issueLat)"
    and "js_gt (calc (parseFloat (latitude req)) (parseFloat (longitude req)) issueLat issueLng)
               (maxAllowedDistance e)"
  shows "preventOutOfAreaAccess calc e findById req =
           Inl (AppError [Lit ''This issue is outside your allowed area. You can only access issues within 5km of your location.''] 403)"
  using assms by (simp add: preventOutOfAreaAccess_def out_of_area_message_def)

theorem preventOutOfAreaAccess_message_fixed_witness:
  "maxAllowedDistance env_10 = Fin 10 \<and>
   preventOutOfAreaAccess (calculateDistance exact_math) env_10 sample_store (request_at_origin id_far None) =
     Inl (AppError [Lit ''This issue is outside your allowed area. You can only access issues within 5km of your location.''] 403) \<and>
   route_getIssue (calculateDistance exact_math) env_10 sample_store (request_at_origin id_far None) =
     Inl (AppError [Lit ''This issue is outside your allowed area. You can only access issues within 5km of your location.''] 403) \<and>
   getIssue (calculateDistance exact_math) env_10 sample_store (request_at_origin id_far None) =
     Inl (AppError [Lit ''This issue is outside your allowed area. You can only access issues within '',
                    Num (Fin 10), Lit ''km of your location.''] 403)"
proof -
  have k: "id_far \<noteq> []" by (rule id_far_nonempty)
  have far: "js_gt (calculateDistance exact_math (parseFloat (latitude (request_at_origin id_far None)))
                      (parseFloat (longitude (request_at_origin id_far None))) (Fin 0) (Fin 180))
                   (maxAllowedDistance env_10)"
    by (simp add: request_at_origin_simps max_10 antipode_gt)
  have h: "\<not> isHidden issue_far" by (simp add: issue_far_def issue_here_def)
  have 0: "validateIssueId (request_at_origin id_far None) = Inr (request_at_origin id_far None)"
    by (simp add: validateIssueId_def handleValidationErrors_def request_at_origin_simps sample_ids_valid)
  have 1: "enforceLocationRestrictions (request_at_origin id_far None) = Inr (request_at_origin id_far None)"
    by (simp add: enforceLocationRestrictions_def request_at_origin_simps path_plain valid_origin)
  have 2: "validateUserLocation (request_at_origin id_far None) = Inr (request_at_origin id_far None)"
    by (simp add: validateUserLocation_def request_at_origin_simps)
  have 3: "preventOutOfAreaAccess (calculateDistance exact_math) env_10 sample_store (request_at_origin id_far None) =
     Inl (AppError [Lit ''This issue is outside your allowed area. You can only access issues within 5km of your location.''] 403)"
    using preventOutOfAreaAccess_message_fixed
            [where req = "request_at_origin id_far None" and k = id_far and findById = sample_store
               and i = issue_far and calc = "calculateDistance exact_math" and e = env_10
               and issueLng = "Fin 180" and issueLat = "Fin 0"]
          k far
    by (simp add: request_at_origin_simps sample_store_far coordinates_far)
  have 4: "getIssue (calculateDistance exact_math) env_10 sample_store (request_at_origin id_far None) =
     Inl (AppError [Lit ''This issue is outside your allowed area. You can only access issues within '',
                    Num (Fin 10), Lit ''km of your location.''] 403)"
    using getIssue_distance_check
            [where req = "request_at_origin id_far None" and k = id_far and findById = sample_store
               and i = issue_far and calc = "calculateDistance exact_math" and e = env_10
               and issueLng = "Fin 180" and issueLat = "Fin 0"]
          far h
    by (simp add: request_at_origin_simps sample_store_far coordinates_far valid_origin max_10
         )
  from 0 1 2 3 4 max_10 show ?thesis by (simp add: route_getIssue_def)
qed

section \<open>Hidden issues\<close>







text \<open>
  The route does not answer every hidden issue like a missing one: preventOutOfAreaAccess
  runs before the controller and does not look at the hidden flag, so a hidden issue
  beyond the maximum distance is refused with the 403, where an id under which nothing
  is stored ends in the 404.
\<close>

lemma hidden_far_issue_forbidden:
  "route_getIssue (calculateDistance exact_math) env_unset [id_far \<mapsto> issue_hidden_far]
      (request_at_origin id_far None)
     = Inl (AppError out_of_area_message 403) \<and>
   route_getIssue (calculateDistance exact_math) env_unset Map.empty (request_at_origin id_far None)
     = Inl (AppError [Lit ''Issue not found''] 404)"
proof -
  have 0: "validateIssueId (request_at_origin id_far None) = Inr (request_at_origin id_far None)"
    by (simp add: validateIssueId_def handleValidationErrors_def request_at_origin_simps sample_ids_valid)
  have 1: "enforceLocationRestrictions (request_at_origin id_far None) = Inr (request_at_origin id_far None)"
    by (simp add: enforceLocationRestrictions_def request_at_origin_simps path_plain valid_origin)
  have 2: "validateUserLocation (request_at_origin id_far None) = Inr (request_at_origin id_far None)"
    by (simp add: validateUserLocation_def request_at_origin_simps)
  have c: "issue_coordinates issue_hidden_far = Some (Fin 180, Fin 0)"
    by (simp add: issue_coordinates_def issue_hidden_far_def issue_far_def issue_here_def)
  have 3: "preventOutOfAreaAccess (calculateDistance exact_math) env_unset [id_far \<mapsto> issue_hidden_far]
             (request_at_origin id_far None) = Inl (AppError out_of_area_message 403)"
    by (simp add: preventOutOfAreaAccess_def Let_def request_at_origin_simps c max_unset
        antipode_gt id_far_nonempty)
  have 4: "preventOutOfAreaAccess (calculateDistance exact_math) env_unset Map.empty
             (request_at_origin id_far None) = Inr (request_at_origin id_far None)"
    by (simp add: preventOutOfAreaAccess_def request_at_origin_simps)
  have 5: "getIssue (calculateDistance exact_math) env_unset Map.empty (request_at_origin id_far None)
             = Inl (AppError [Lit ''Issue not found''] 404)"
    by (simp add: getIssue_def request_at_origin_simps valid_origin)
  from 0 1 2 3 4 5 show ?thesis by (simp add: route_getIssue_def)
qed



section \<open>Named reporters\<close>

lemma comments_filterAnonymousData:
  "comments (filterAnonymousData i u) = map_option (map filterComment) (comments i)"
  by (cases "reportedBy i"; cases "isAnonymous i"; cases "comments i"; cases "activityLog i")
     (simp_all add: filterAnonymousData_def)

lemma reportedBy_filterAnonymousData:
  "reportedBy (filterAnonymousData i u) =
     (if isAnonymous i \<or> reportedBy i = None then Some anonymous_reporter else reportedBy i)"
  by (cases "reportedBy i"; cases "isAnonymous i"; cases "comments i"; cases "activityLog i")
     (simp_all add: filterAnonymousData_def)

lemma reporterName_filterAnonymousData:
  "reporterName (filterAnonymousData i u) =
     (case reportedBy i of None \<Rightarrow> Some ''Anonymous''
      | Some r \<Rightarrow> if isAnonymous i then Some ''Anonymous'' else ref_username r)"
  by (cases "reportedBy i"; cases "isAnonymous i"; cases "comments i"; cases "activityLog i")
     (simp_all add: filterAnonymousData_def)

text \<open>
  An issue reported by alice under her name, read by bob, an ordinary user: the view
  that restrictDataAccess sends still carries alice's email.
\<close>

theorem reporter_email_counterexample:
  "map_option reportedBy
     (data_issue (restrictDataAccess (request_at_origin id_here (Some caller_bob))
        \<lparr>results = None, data_issues = None, data_issue = Some issue_here\<rparr>))
   = Some (Some \<lparr>ref_id = Some alice_id, ref_username = Some ''alice'',
                 ref_email = Some ''alice@example.org''\<rparr>)"
  by (simp add: restrictDataAccess_def restrictIssue_def request_at_origin_simps issue_here_def
      alice_def alice_id_def bob_id_def caller_bob_def reportedBy_filterAnonymousData)

text \<open>
  Claim C3, as the code has it. For an issue that is not anonymous and has a reporter
  with an id, and a caller who is neither that reporter nor an admin, restrictDataAccess
  sends the issue through filterAnonymousData: the view's reporter name is the
  reporter's real username, and the reporter reference is passed on unchanged, with
  whatever email it carries.
\<close>

theorem restrictDataAccess_named_reporter:
  assumes "reportedBy i = Some r" and "ref_id r = Some rid" and "\<not> isAnonymous i"
    and "\<forall>c. req_user req = Some c \<longrightarrow> role c \<noteq> ''admin'' \<and> caller_id c \<noteq> rid"
  shows "restrictIssue (req_user req) i = filterAnonymousData i (req_user req) \<and>
         reporterName (restrictIssue (req_user req) i) = ref_username r \<and>
         reportedBy (restrictIssue (req_user req) i) = Some r \<and>
         (data_issue data = Some i \<longrightarrow>
            data_issue (restrictDataAccess req data) = Some (restrictIssue (req_user req) i))"
proof -
  have not_owner: "\<not> (case req_user req of None \<Rightarrow> False | Some c \<Rightarrow> rid = caller_id c)"
    using assms(4) by (auto split: option.splits)
  have not_admin: "\<not> (case req_user req of None \<Rightarrow> False | Some c \<Rightarrow> role c = ''admin'')"
    using assms(4) by (auto split: option.splits)
  have 1: "restrictIssue (req_user req) i = filterAnonymousData i (req_user req)"
    using assms(1,2) not_owner by (simp add: restrictIssue_def)
  have 2: "reporterName (filterAnonymousData i (req_user req)) = ref_username r"
    using assms(1,3) by (simp add: reporterName_filterAnonymousData)
  have 3: "reportedBy (filterAnonymousData i (req_user req)) = Some r"
    using assms(1,3) by (simp add: reportedBy_filterAnonymousData)
  have 4: "data_issue data = Some i \<longrightarrow>
            data_issue (restrictDataAccess req data) = Some (restrictIssue (req_user req) i)"
    using not_admin by (simp add: restrictDataAccess_def)
  from 1 2 3 4 show ?thesis by simp
qed

theorem restrictDataAccess_named_reporter_witness:
  "restrictIssue (Some caller_bob) issue_here = filterAnonymousData issue_here (Some caller_bob) \<and>
   reporterName (restrictIssue (Some caller_bob) issue_here) = Some ''alice'' \<and>
   reportedBy (restrictIssue (Some caller_bob) issue_here) = Some alice \<and>
   ref_email alice = Some ''alice@example.org''"
proof -
  have a: "reportedBy issue_here = Some alice" and b: "ref_id alice = Some alice_id"
    and c: "\<not> isAnonymous issue_here" and n: "ref_username alice = Some ''alice''"
    and m: "ref_email alice = Some ''alice@example.org''"
    by (simp_all add: issue_here_def alice_def)
  have d: "\<forall>c. req_user (request_at_origin id_here (Some caller_bob)) = Some c
             \<longrightarrow> role c \<noteq> ''admin'' \<and> caller_id c \<noteq> alice_id"
    by (auto simp: request_at_origin_simps caller_bob_def alice_id_def bob_id_def)
  from restrictDataAccess_named_reporter
         [OF a b c d, where data = "\<lparr>results = None, data_issues = None, data_issue = Some issue_here\<rparr>"]
       n m
  show ?thesis by (auto simp: request_at_origin_simps)
qed

section \<open>The radius of list and map requests\<close>

lemma list_guards_Inr:
  assumes "andThen (andThen (andThen (validateIssueFilters req) enforceLocationRestrictions)
                            validateUserLocation)
                   (enforceDistanceRestrictions e) = Inr r3"
  shows "latitude r3 = latitude req \<and> longitude r3 = longitude req \<and>
         distance r3 = distance req \<and> bounds r3 = bounds req \<and>
         \<not> (truthy (distance req) \<and> js_gt (parseFloat (distance req)) (maxAllowedDistance e))"
proof -
  from assms obtain r2 where c: "andThen (andThen (validateIssueFilters req) enforceLocationRestrictions)
                                         validateUserLocation = Inr r2"
    and d: "enforceDistanceRestrictions e r2 = Inr r3" by (blast dest: andThen_Inr)
  from c obtain r1 where c1: "andThen (validateIssueFilters req) enforceLocationRestrictions = Inr r1"
    and c2: "validateUserLocation r1 = Inr r2"
    by (blast dest: andThen_Inr)
  from c1 obtain r0 where "validateIssueFilters req = Inr r0" and "enforceLocationRestrictions r0 = Inr r1"
    by (blast dest: andThen_Inr)
  then have "r1 = req"
    using validateIssueFilters_Inr enforceLocationRestrictions_Inr by blast
  with c2 have "r2 = req" using validateUserLocation_Inr by blast
  with d show ?thesis
    using enforceDistanceRestrictions_Inr by blast
qed

lemma route_getIssues_Inr:
  assumes "route_getIssues e req = Inr f"
  shows "\<not> (truthy (distance req) \<and> js_gt (parseFloat (distance req)) (maxAllowedDistance e)) \<and>
         filter_location f = Near (parseFloat (longitude req), parseFloat (latitude req))
                                  (requestedDistance e req)"
proof -
  from assms obtain r3 where a: "andThen (andThen (andThen (validateIssueFilters req) enforceLocationRestrictions)
                            validateUserLocation)
                   (enforceDistanceRestrictions e) = Inr r3" and b: "getIssues e r3 = Inr f"
    unfolding route_getIssues_def by (blast dest: andThen_Inr)
  from b list_guards_Inr [OF a] show ?thesis
    by (auto simp: getIssues_def Let_def requestedDistance_def split: if_splits)
qed

lemma route_getIssuesForMap_Inr:
  assumes "route_getIssuesForMap e req = Inr f"
  shows "\<not> (truthy (distance req) \<and> js_gt (parseFloat (distance req)) (maxAllowedDistance e)) \<and>
         filter_location f =
           (case bounds req of
              Box n s ea w \<Rightarrow> GeoWithin (w, s) (ea, n)
            | _ \<Rightarrow> Near (parseFloat (longitude req), parseFloat (latitude req))
                         (requestedDistance e req))"
proof -
  from assms obtain r3 where a: "andThen (andThen (andThen (validateIssueFilters req) enforceLocationRestrictions)
                            validateUserLocation)
                   (enforceDistanceRestrictions e) = Inr r3" and b: "getIssuesForMap e r3 = Inr f"
    unfolding route_getIssuesForMap_def by (blast dest: andThen_Inr)
  from b list_guards_Inr [OF a] show ?thesis
    by (auto simp: getIssuesForMap_def Let_def requestedDistance_def split: if_splits qbounds.splits)
qed

text \<open>
  What holds of the radius. A request that supplies a radius above the configured
  maximum is rejected by enforceDistanceRestrictions with the 400 whose message names
  the maximum, so neither the list route nor the map route reaches its controller. For
  a supplied radius r and a maximum m, the radius the controllers compute and the
  radius of the body filter are both min r m, and a request that gets through the list
  route, or through the map route without bounds, is filtered with that radius.
\<close>

lemma radius_guard:
  "(truthy (distance req) \<and> js_gt (parseFloat (distance req)) (maxAllowedDistance e) \<longrightarrow>
      enforceDistanceRestrictions e req =
        Inl (AppError [Lit ''Distance cannot exceed '', Num (maxAllowedDistance e),
                       Lit ''km for security reasons''] 400) \<and>
      (\<forall>f. route_getIssues e req \<noteq> Inr f) \<and> (\<forall>f. route_getIssuesForMap e req \<noteq> Inr f)) \<and>
   (\<forall>r m. (distance req = Text (Fin r) \<or> distance req = Loose (Fin r)) \<and>
          maxAllowedDistance e = Fin m \<longrightarrow>
      requestedDistance e req = Fin (min r m) \<and> effective_radius e req = Fin (min r m) \<and>
      (\<forall>f. route_getIssues e req = Inr f \<longrightarrow>
         filter_location f = Near (parseFloat (longitude req), parseFloat (latitude req))
                                  (Fin (min r m))) \<and>
      (\<forall>f. route_getIssuesForMap e req = Inr f \<and> bounds req = NoBounds \<longrightarrow>
         filter_location f = Near (parseFloat (longitude req), parseFloat (latitude req))
                                  (Fin (min r m))))"
proof (intro conjI impI allI)
  assume "truthy (distance req) \<and> js_gt (parseFloat (distance req)) (maxAllowedDistance e)"
  then show "enforceDistanceRestrictions e req =
        Inl (AppError [Lit ''Distance cannot exceed '', Num (maxAllowedDistance e),
                       Lit ''km for security reasons''] 400)"
    by (simp add: enforceDistanceRestrictions_def)
next
  fix f assume "truthy (distance req) \<and> js_gt (parseFloat (distance req)) (maxAllowedDistance e)"
  then show "route_getIssues e req \<noteq> Inr f"
    using route_getIssues_Inr by blast
next
  fix f assume "truthy (distance req) \<and> js_gt (parseFloat (distance req)) (maxAllowedDistance e)"
  then show "route_getIssuesForMap e req \<noteq> Inr f"
    using route_getIssuesForMap_Inr by blast
next
  fix r m assume a: "(distance req = Text (Fin r) \<or> distance req = Loose (Fin r)) \<and>
          maxAllowedDistance e = Fin m"
  then show rd: "requestedDistance e req = Fin (min r m)"
    by (auto simp: requestedDistance_def Math_min_Fin)
  from a show "effective_radius e req = Fin (min r m)"
    by (auto simp: effective_radius_def Math_min_Fin)
  { fix f assume "route_getIssues e req = Inr f"
    then show "filter_location f = Near (parseFloat (longitude req), parseFloat (latitude req))
                                  (Fin (min r m))"
      using route_getIssues_Inr rd by simp }
  { fix f assume "route_getIssuesForMap e req = Inr f \<and> bounds req = NoBounds"
    then show "filter_location f = Near (parseFloat (longitude req), parseFloat (latitude req))
                                  (Fin (min r m))"
      using route_getIssuesForMap_Inr [of e req f] rd by simp }
qed

text \<open>
  Claim C4. The second half of the claim fails on the map route. A map request that
  carries bounds and gets through the guards is handed to storage with the bounds box
  alone: getIssuesForMap overwrites the filter that held the centre and the radius, so
  no radius, neither the requested one nor the maximum, limits what is returned. The
  request below asks for 3 km around (0, 0) with the whole globe as bounds.
\<close>

theorem map_bounds_replace_radius:
  assumes "route_getIssuesForMap e req = Inr f" and "bounds req = Box n s ea w"
  shows "filter_location f = GeoWithin (w, s) (ea, n)"
  using route_getIssuesForMap_Inr [OF assms(1)] assms(2) by simp

theorem map_bounds_replace_radius_witness:
  "requestedDistance env_unset
      (map_request (Text (Fin 0)) (Text (Fin 0)) (Text (Fin 3))
         (Box (Fin 90) (Fin (- 90)) (Fin 180) (Fin (- 180)))) = Fin 3 \<and>
   route_getIssuesForMap env_unset
      (map_request (Text (Fin 0)) (Text (Fin 0)) (Text (Fin 3))
         (Box (Fin 90) (Fin (- 90)) (Fin 180) (Fin (- 180)))) =
     Inr \<lparr>filter_isHidden = False,
          filter_location = GeoWithin (Fin (- 180), Fin (- 90)) (Fin 180, Fin 90)\<rparr>"
proof -
  let ?req = "map_request (Text (Fin 0)) (Text (Fin 0)) (Text (Fin 3))
                (Box (Fin 90) (Fin (- 90)) (Fin 180) (Fin (- 180)))"
  have r: "requestedDistance env_unset ?req = Fin 3"
    by (simp add: requestedDistance_def map_request_simps max_unset Math_min_Fin)
  have 0: "validateIssueFilters ?req = Inr ?req"
    by (simp add: validateIssueFilters_def handleValidationErrors_def check_string_def
        check_query_def isFloat_def map_request_simps js_le_Fin)
  have 1: "enforceLocationRestrictions ?req = Inr ?req"
    by (simp add: enforceLocationRestrictions_def map_request_simps path_plain valid_origin)
  have 2: "validateUserLocation ?req = Inr ?req"
    by (simp add: validateUserLocation_def map_request_simps)
  have 3: "\<exists>r3. enforceDistanceRestrictions env_unset ?req = Inr r3 \<and>
                (\<exists>f. getIssuesForMap env_unset r3 = Inr f \<and> filter_isHidden f = False)"
    by (simp add: enforceDistanceRestrictions_def getIssuesForMap_def map_request_simps max_unset
        js_gt_Fin out_of_range_def valid_origin Let_def)
  from 0 1 2 3 obtain f where run: "route_getIssuesForMap env_unset ?req = Inr f"
    and hid: "filter_isHidden f = False"
    by (auto simp: route_getIssuesForMap_def)
  have b: "bounds ?req = Box (Fin 90) (Fin (- 90)) (Fin 180) (Fin (- 180))"
    by (simp add: map_request_simps)
  from map_bounds_replace_radius [OF run b] hid
  have "f = \<lparr>filter_isHidden = False,
               filter_location = GeoWithin (Fin (- 180), Fin (- 90)) (Fin 180, Fin 90)\<rparr>"
    by (cases f) simp
  with run r show ?thesis by simp
qed

section \<open>Invalid caller coordinates\<close>

text \<open>
  What holds of invalid coordinates. When the caller's latitude and longitude are both
  present and one of them reads as NaN or lies outside its range, each controller
  (list, map, single issue) rejects with Invalid location coordinates provided, 400,
  whatever the distance function and the store, and so does enforceLocationRestrictions
  on a GET outside the admin and statistics paths.
\<close>

lemma controllers_reject_invalid_coordinates:
  assumes "truthy (latitude req)" and "truthy (longitude req)"
    and "parseFloat (latitude req) = NaN \<or> parseFloat (longitude req) = NaN \<or>
         js_lt (parseFloat (latitude req)) (Fin (- 90)) \<or> js_gt (parseFloat (latitude req)) (Fin 90) \<or>
         js_lt (parseFloat (longitude req)) (Fin (- 180)) \<or> js_gt (parseFloat (longitude req)) (Fin 180)"
  shows "getIssues e req = Inl (AppError [Lit ''Invalid location coordinates provided''] 400) \<and>
         getIssuesForMap e req = Inl (AppError [Lit ''Invalid location coordinates provided''] 400) \<and>
         getIssue calc e findById req = Inl (AppError [Lit ''Invalid location coordinates provided''] 400) \<and>
         (http_method req = ''GET'' \<and> \<not> str_includes (path req) ''/admin'' \<and>
          \<not> str_includes (path req) ''/stats'' \<longrightarrow>
            enforceLocationRestrictions req = Inl (AppError [Lit ''Invalid location coordinates provided''] 400))"
proof -
  have inv: "invalid_coordinates (parseFloat (latitude req)) (parseFloat (longitude req))"
    using assms(3) by (auto simp: invalid_coordinates_def isNaN_def)
  show ?thesis
    using assms(1,2) inv
    by (simp add: getIssues_def getIssuesForMap_def getIssue_def enforceLocationRestrictions_def)
qed

text \<open>
  On the list and map routes validateIssueFilters runs first, so a request that reaches
  the storage query carries a latitude and a longitude that are decimal literals within
  their ranges.
\<close>

lemma isFloat_Fin:
  assumes "check_query (isFloat lo hi) msg v = []" and "truthy v"
  shows "\<exists>x. v = Text (Fin x) \<and> lo \<le> x \<and> x \<le> hi"
proof -
  from assms have "isFloat lo hi v"
    by (cases v) (auto simp: check_query_def split: if_splits)
  then obtain n where v: "v = Text n" and a: "js_le (Fin lo) n" and b: "js_le n (Fin hi)"
    by (cases v) (auto simp: isFloat_def)
  from a b obtain x where "n = Fin x" by (cases n) (auto simp: js_le_def)
  with v a b show ?thesis by (auto simp: js_le_Fin)
qed

lemma validateIssueFilters_coordinates:
  assumes "validateIssueFilters req = Inr r"
  shows "check_query (isFloat (- 90) 90) ''Invalid latitude'' (latitude req) = [] \<and>
         check_query (isFloat (- 180) 180) ''Invalid longitude'' (longitude req) = []"
  using assms
  by (simp add: validateIssueFilters_def handleValidationErrors_def split: if_splits)

lemma read_routes_coordinates:
  assumes "route_getIssues e req = Inr f \<or> route_getIssuesForMap e req = Inr f"
  shows "\<exists>x y. latitude req = Text (Fin x) \<and> - 90 \<le> x \<and> x \<le> 90 \<and>
               longitude req = Text (Fin y) \<and> - 180 \<le> y \<and> y \<le> 180"
proof -
  from assms obtain r3 where a: "andThen (andThen (andThen (validateIssueFilters req) enforceLocationRestrictions)
                            validateUserLocation)
                   (enforceDistanceRestrictions e) = Inr r3"
    and b: "getIssues e r3 = Inr f \<or> getIssuesForMap e r3 = Inr f"
    unfolding route_getIssues_def route_getIssuesForMap_def by (blast dest: andThen_Inr)
  from a obtain r0 where v: "validateIssueFilters req = Inr r0"
    by (blast dest: andThen_Inr)
  from b list_guards_Inr [OF a] have t: "truthy (latitude req)" "truthy (longitude req)"
    by (auto simp: getIssues_def getIssuesForMap_def split: if_splits)
  from isFloat_Fin [of "- 90" 90 _ "latitude req"] isFloat_Fin [of "- 180" 180 _ "longitude req"]
       validateIssueFilters_coordinates [OF v] t
  show ?thesis by blast
qed

lemma check_query_latitude_Loose:
  "check_query (isFloat lo hi) msg (Loose n) = [msg]"
  by (simp add: check_query_def isFloat_def)

lemma preventOutOfAreaAccess_cases:
  "preventOutOfAreaAccess calc e findById req = Inr req \<or>
   preventOutOfAreaAccess calc e findById req = Inl (AppError out_of_area_message 403)"
  by (auto simp: preventOutOfAreaAccess_def Let_def split: option.splits)

lemma getIssue_valid_not_400:
  assumes "truthy (latitude req)" and "truthy (longitude req)"
    and "\<not> invalid_coordinates (parseFloat (latitude req)) (parseFloat (longitude req))"
  shows "getIssue calc e findById req \<noteq> Inl (AppError m 400)"
  using assms by (auto simp: getIssue_def Let_def split: option.splits)

text \<open>
  Claim C5. A latitude that is not a number as a whole but begins with one, such as
  12abc, is read by \<^verbatim>\<open>parseFloat\<close> as that number. The list and map routes reject it
  in validateIssueFilters, whose \<^verbatim>\<open>isFloat\<close> wants a decimal literal. The single-item
  route has no such validator: with an id the validator accepts, every guard passes the
  request on, the controller goes on to the store with latitude 12, and the route never
  answers 400.
\<close>

theorem loose_latitude_accepted:
  assumes "latitude req = Loose (Fin x)" and "- 90 \<le> x" and "x \<le> 90"
    and "longitude req = Text (Fin y)" and "- 180 \<le> y" and "y \<le> 180"
    and "validateIssueId req = Inr req" and "http_method req \<noteq> ''POST''"
  shows "(\<exists>m. validateIssueFilters req = Inl (AppError [Lit m] 400) \<and>
              route_getIssues e req = Inl (AppError [Lit m] 400) \<and>
              route_getIssuesForMap e req = Inl (AppError [Lit m] 400)) \<and>
         route_getIssue calc e findById req =
           andThen (preventOutOfAreaAccess calc e findById req) (getIssue calc e findById) \<and>
         (\<forall>m. route_getIssue calc e findById req \<noteq> Inl (AppError m 400))"
proof -
  have t: "truthy (latitude req)" "truthy (longitude req)"
    using assms(1,4) by simp_all
  have valid: "\<not> invalid_coordinates (parseFloat (latitude req)) (parseFloat (longitude req))"
    using assms(1-6) by (simp add: invalid_coordinates_def isNaN_def js_gt_def)
  have "\<exists>m. validateIssueFilters req = Inl (AppError [Lit m] 400)"
    using assms(1)
    by (simp add: validateIssueFilters_def handleValidationErrors_def check_query_latitude_Loose)
  then have 1: "\<exists>m. validateIssueFilters req = Inl (AppError [Lit m] 400) \<and>
              route_getIssues e req = Inl (AppError [Lit m] 400) \<and>
              route_getIssuesForMap e req = Inl (AppError [Lit m] 400)"
    by (auto simp: route_getIssues_def route_getIssuesForMap_def)
  have g: "enforceLocationRestrictions req = Inr req" "validateUserLocation req = Inr req"
    using assms(8) t valid
    by (simp_all add: enforceLocationRestrictions_pass validateUserLocation_pass)
  have 2: "route_getIssue calc e findById req =
           andThen (preventOutOfAreaAccess calc e findById req) (getIssue calc e findById)"
    using assms(7) g by (simp add: route_getIssue_def)
  have 3: "\<forall>m. route_getIssue calc e findById req \<noteq> Inl (AppError m 400)"
    using 2 preventOutOfAreaAccess_cases [of calc e findById req]
          getIssue_valid_not_400 [OF t valid, of calc e findById]
    by auto
  from 1 2 3 show ?thesis by blast
qed

theorem loose_latitude_accepted_witness:
  "route_getIssue (calculateDistance exact_math) env_unset [id_north \<mapsto> issue_north]
      (request_from (Loose (Fin 12)) (Text (Fin 0)) id_north None)
     = Inr \<lparr>res_issue = processIssue issue_north, res_distance = Fin 0\<rparr> \<and>
   route_getIssues env_unset (list_request (Loose (Fin 12)) (Text (Fin 0)) Undefined)
     = Inl (AppError [Lit ''Invalid latitude''] 400)"
proof -
  let ?req = "request_from (Loose (Fin 12)) (Text (Fin 0)) id_north None"
  have v: "validateIssueId ?req = Inr ?req"
    by (simp add: validateIssueId_def handleValidationErrors_def request_from_simps sample_ids_valid)
  have c: "issue_coordinates issue_north = Some (Fin 0, Fin 12)"
    by (simp add: issue_coordinates_def issue_north_def issue_here_def)
  have l: "location issue_north = Some \<lparr>coordinates = Some (Fin 0, Fin 12)\<rparr>"
    and h: "\<not> isHidden issue_north"
    by (simp_all add: issue_north_def issue_here_def)
  have valid: "\<not> invalid_coordinates (Fin 12) (Fin 0)"
    by (simp add: invalid_coordinates_def isNaN_def js_gt_def)
  have p: "preventOutOfAreaAccess (calculateDistance exact_math) env_unset [id_north \<mapsto> issue_north] ?req
             = Inr ?req"
    by (simp add: preventOutOfAreaAccess_def Let_def request_from_simps c max_unset distance_same
        js_gt_Fin)
  have g: "getIssue (calculateDistance exact_math) env_unset [id_north \<mapsto> issue_north] ?req
             = Inr \<lparr>res_issue = processIssue issue_north, res_distance = Fin 0\<rparr>"
    by (simp add: getIssue_def Let_def request_from_simps l h valid max_unset distance_same js_gt_Fin)
  have 1: "route_getIssue (calculateDistance exact_math) env_unset [id_north \<mapsto> issue_north] ?req
     = Inr \<lparr>res_issue = processIssue issue_north, res_distance = Fin 0\<rparr>"
    using loose_latitude_accepted
            [where req = ?req and x = 12 and y = 0 and calc = "calculateDistance exact_math"
               and e = env_unset and findById = "[id_north \<mapsto> issue_north]", OF _ _ _ _ _ _ v]
          p g
    by (simp add: request_from_simps)
  have 2: "route_getIssues env_unset (list_request (Loose (Fin 12)) (Text (Fin 0)) Undefined)
     = Inl (AppError [Lit ''Invalid latitude''] 400)"
    by (simp add: route_getIssues_def validateIssueFilters_def handleValidationErrors_def
        check_string_def check_query_def isFloat_def list_request_simps js_le_Fin)
  from 1 2 show ?thesis by simp
qed

section \<open>The collection filter\<close>

lemma keep_issue_iff:
  "keep_issue calc lat lng r =
     (\<lambda>i. \<exists>ilng ilat. issue_coordinates i = Some (ilng, ilat) \<and> js_le (calc lat lng ilat ilng) r)"
  by (rule ext) (auto simp: keep_issue_def split: option.splits)

text \<open>
  Claim C6. When the caller's latitude and longitude are supplied, the body filter of
  filterIssuesByDistance keeps exactly the issues whose distance from the caller, as
  the distance function computes it from their coordinates, is at most the effective
  radius \<^verbatim>\<open>Math.min(parseFloat(distance), max)\<close>; the issues kept appear in the order
  of the input (the result is the input list filtered, hence a subsequence of it), and
  the result count is their number.
\<close>

theorem filterIssuesByDistance_exact:
  assumes "truthy (latitude req)" and "truthy (longitude req)"
    and "data_issues data = Some xs"
  shows "\<exists>kept. data_issues (filterIssuesByDistance calc e req data) = Some kept \<and>
           results (filterIssuesByDistance calc e req data) = Some (length kept) \<and>
           kept = filter (\<lambda>i. \<exists>ilng ilat. issue_coordinates i = Some (ilng, ilat) \<and>
                      js_le (calc (parseFloat (latitude req)) (parseFloat (longitude req)) ilat ilng)
                            (Math_min (parseFloat (with_default (distance req) (Text (Fin 5))))
                                      (maxAllowedDistance e))) xs \<and>
           subseq kept xs"
  using assms
  by (simp add: filterIssuesByDistance_def Let_def keep_issue_iff effective_radius_def)

theorem filterIssuesByDistance_exact_witness:
  "data_issues (filterIssuesByDistance (calculateDistance exact_math) env_unset (request_at_origin id_here None)
      \<lparr>results = Some 3, data_issues = Some [issue_here, issue_far, issue_here], data_issue = None\<rparr>)
   = Some [issue_here, issue_here]"
proof -
  have h1: "truthy (latitude (request_at_origin id_here None))"
    and h2: "truthy (longitude (request_at_origin id_here None))"
    by (simp_all add: request_at_origin_simps)
  have h3: "data_issues \<lparr>results = Some 3, data_issues = Some [issue_here, issue_far, issue_here],
                         data_issue = None\<rparr> = Some [issue_here, issue_far, issue_here]"
    by simp
  from filterIssuesByDistance_exact [OF h1 h2 h3, of "calculateDistance exact_math" env_unset]
  show ?thesis
    by (simp add: request_at_origin_simps max_unset Math_min_Fin coordinates_here coordinates_far
        distance_same antipode_not_le js_le_Fin)
qed

section \<open>Anonymous reporters\<close>

lemma filterComment_keeps_name:
  assumes "username c = Some name" and "name \<noteq> []"
  shows "username (filterComment c) = Some name \<and> content (filterComment c) = content c \<and>
         (\<forall>w. user c = Some w \<longrightarrow>
            user (filterComment c) = Some \<lparr>ref_id = ref_id w, ref_username = Some name, ref_email = None\<rparr>)"
  using assms by (simp add: filterComment_def)

text \<open>
  Claim C7. For an issue flagged anonymous or without a reporter, and for every caller,
  filterAnonymousData puts in place of the reporter exactly the sentinel with a null id,
  the name Anonymous and a null email. Every comment is kept, in place; a comment that
  carries a non-empty username keeps that username and its content, and its user
  reference, when present, is rebuilt from the user's id and that same username.
\<close>

theorem anonymous_reporter_sentinel:
  assumes "isAnonymous i \<or> reportedBy i = None"
  shows "reportedBy (filterAnonymousData i u) =
           Some \<lparr>ref_id = None, ref_username = Some ''Anonymous'', ref_email = None\<rparr> \<and>
         (\<forall>cs. comments i = Some cs \<longrightarrow>
            (\<exists>cs'. comments (filterAnonymousData i u) = Some cs' \<and> length cs' = length cs \<and>
               (\<forall>n name. n < length cs \<and> username (cs ! n) = Some name \<and> name \<noteq> [] \<longrightarrow>
                  username (cs' ! n) = Some name \<and> content (cs' ! n) = content (cs ! n) \<and>
                  (\<forall>w. user (cs ! n) = Some w \<longrightarrow>
                     user (cs' ! n) =
                       Some \<lparr>ref_id = ref_id w, ref_username = Some name, ref_email = None\<rparr>))))"
  using assms
  by (auto simp: reportedBy_filterAnonymousData comments_filterAnonymousData anonymous_reporter_def
        filterComment_keeps_name)

theorem anonymous_reporter_sentinel_witness:
  "(isAnonymous issue_anonymous \<or> reportedBy issue_anonymous = None) \<and>
   reportedBy (filterAnonymousData issue_anonymous (Some caller_bob)) =
     Some \<lparr>ref_id = None, ref_username = Some ''Anonymous'', ref_email = None\<rparr> \<and>
   comments (filterAnonymousData issue_anonymous (Some caller_bob)) = Some [bob_comment]"
proof -
  have h: "isAnonymous issue_anonymous \<or> reportedBy issue_anonymous = None"
    by (simp add: issue_anonymous_def)
  have c: "comments (filterAnonymousData issue_anonymous (Some caller_bob)) = Some [bob_comment]"
    by (simp add: comments_filterAnonymousData issue_anonymous_def issue_here_def bob_comment_def
        filterComment_def)
  from h c anonymous_reporter_sentinel [OF h, of "Some caller_bob"] show ?thesis by blast
qed

section \<open>Redaction is idempotent\<close>

lemma str_or_idem: "str_or (str_or x d) d = str_or x d"
  by (cases x) auto

lemma filterComment_idem: "filterComment (filterComment c) = filterComment c"
  by (cases "user c") (simp_all add: filterComment_def str_or_idem)

lemma filterLog_idem: "filterLog (filterLog l) = filterLog l"
  by (cases "actor l") (simp_all add: filterLog_def str_or_idem)

lemma filterComment_comp: "filterComment \<circ> filterComment = filterComment"
  by (rule ext) (simp add: filterComment_idem)

lemma filterLog_comp: "filterLog \<circ> filterLog = filterLog"
  by (rule ext) (simp add: filterLog_idem)

text \<open>
  Claim C8. Redacting an issue that is already redacted changes nothing: for every issue
  and every pair of callers, filterAnonymousData applied to its own result returns that
  result.
\<close>

theorem filterAnonymousData_idempotent:
  "filterAnonymousData (filterAnonymousData i u) u' = filterAnonymousData i u"
proof (cases "reportedBy i")
  case None
  then show ?thesis
    by (cases "comments i"; cases "activityLog i")
       (simp_all add: filterAnonymousData_def filterComment_comp filterLog_comp)
next
  case (Some r)
  then show ?thesis
    by (cases "isAnonymous i"; cases "comments i"; cases "activityLog i")
       (simp_all add: filterAnonymousData_def filterComment_comp filterLog_comp)
qed

section \<open>The single-item middleware\<close>

text \<open>
  Claim C10. preventOutOfAreaAccess rejects only when the issue id, the latitude and
  the longitude are all present, the stored issue is found and has coordinates, and the
  computed distance exceeds the maximum; the error is then the 403 of the middleware.
  When the latitude or the longitude is absent, or when the stored issue has no
  coordinates, the middleware makes no distance check and passes the request on
  unchanged.
\<close>

theorem preventOutOfAreaAccess_rejects_only:
  "(\<forall>err. preventOutOfAreaAccess calc e findById req = Inl err \<longrightarrow>
      err = AppError out_of_area_message 403 \<and>
      truthy_id (params_id req) \<and> truthy (latitude req) \<and> truthy (longitude req) \<and>
      (\<exists>k i issueLng issueLat. params_id req = Some k \<and> findById k = Some i \<and>
          issue_coordinates i = Some (issueLng, issueLat) \<and>
          js_gt (calc (parseFloat (latitude req)) (parseFloat (longitude req)) issueLat issueLng)
                (maxAllowedDistance e))) \<and>
   (\<not> truthy (latitude req) \<or> \<not> truthy (longitude req) \<longrightarrow>
      preventOutOfAreaAccess calc e findById req = Inr req) \<and>
   (\<forall>k i. params_id req = Some k \<and> findById k = Some i \<and> issue_coordinates i = None \<longrightarrow>
      preventOutOfAreaAccess calc e findById req = Inr req)"
  by (auto simp: preventOutOfAreaAccess_def Let_def split: option.splits if_splits)

theorem preventOutOfAreaAccess_rejects_only_witness:
  "preventOutOfAreaAccess (calculateDistance exact_math) env_unset sample_store (request_at_origin id_far None)
     = Inl (AppError out_of_area_message 403) \<and>
   truthy (latitude (request_at_origin id_far None)) \<and>
   preventOutOfAreaAccess (calculateDistance exact_math) env_unset sample_store
       ((request_at_origin id_far None)\<lparr>latitude := Undefined\<rparr>)
     = Inr ((request_at_origin id_far None)\<lparr>latitude := Undefined\<rparr>) \<and>
   preventOutOfAreaAccess (calculateDistance exact_math) env_unset sample_store (request_at_origin id_unlocated None)
     = Inr (request_at_origin id_unlocated None)"
proof -
  have far: "preventOutOfAreaAccess (calculateDistance exact_math) env_unset sample_store (request_at_origin id_far None)
     = Inl (AppError out_of_area_message 403)"
    by (simp add: preventOutOfAreaAccess_def Let_def request_at_origin_simps sample_store_far
        coordinates_far max_unset antipode_gt id_far_nonempty)
  from far preventOutOfAreaAccess_rejects_only
         [of "calculateDistance exact_math" env_unset sample_store "request_at_origin id_far None"]
  have a: "truthy (latitude (request_at_origin id_far None))" by blast
  have b: "preventOutOfAreaAccess (calculateDistance exact_math) env_unset sample_store
       ((request_at_origin id_far None)\<lparr>latitude := Undefined\<rparr>)
     = Inr ((request_at_origin id_far None)\<lparr>latitude := Undefined\<rparr>)"
    using preventOutOfAreaAccess_rejects_only
         [of "calculateDistance exact_math" env_unset sample_store "(request_at_origin id_far None)\<lparr>latitude := Undefined\<rparr>"]
    by simp
  have c: "preventOutOfAreaAccess (calculateDistance exact_math) env_unset sample_store (request_at_origin id_unlocated None)
     = Inr (request_at_origin id_unlocated None)"
    using preventOutOfAreaAccess_rejects_only
         [of "calculateDistance exact_math" env_unset sample_store "request_at_origin id_unlocated None"]
    by (simp add: request_at_origin_simps sample_store_unlocated coordinates_unlocated)
  from far a b c show ?thesis by simp
qed

section \<open>The distance calculator outside the domain of its square root\<close>

text \<open>
  \<^verbatim>\<open>calculateDistance\<close> takes \<^verbatim>\<open>Math.sqrt(1 - a)\<close> without clamping \<open>a\<close>. With an
  engine that rounds, the sum \<open>a\<close> of the two haversine terms can come out above 1 for
  two points nearly opposite on the globe; the square root is then NaN, NaN goes through
  \<^verbatim>\<open>Math.atan2\<close>, the products, \<^verbatim>\<open>Math.round\<close> and the division, and the function
  returns NaN, which is neither at least 0 nor equal to any number. On two equal points
  the exact engine returns 0.
\<close>

lemma calculateDistance_NaN:
  assumes "a = m_add M
                (m_mul M (m_sin M (m_div M (toRadians M (m_sub M lat2 lat1)) (Fin 2)))
                         (m_sin M (m_div M (toRadians M (m_sub M lat2 lat1)) (Fin 2))))
                (m_mul M
                   (m_mul M
                      (m_mul M (m_cos M (toRadians M lat1)) (m_cos M (toRadians M lat2)))
                      (m_sin M (m_div M (toRadians M (m_sub M lon2 lon1)) (Fin 2))))
                   (m_sin M (m_div M (toRadians M (m_sub M lon2 lon1)) (Fin 2))))"
    and "m_sqrt M (m_sub M (Fin 1) a) = NaN"
    and "\<And>y. m_atan2 M y NaN = NaN" and "\<And>x. m_mul M x NaN = NaN"
    and "\<And>x. m_mul M NaN x = NaN" and "m_round M NaN = NaN" and "\<And>x. m_div M NaN x = NaN"
  shows "calculateDistance M lat1 lon1 lat2 lon2 = NaN \<and>
         \<not> js_le (Fin 0) (calculateDistance M lat1 lon1 lat2 lon2)"
proof -
  have "calculateDistance M lat1 lon1 lat2 lon2 = NaN"
    unfolding calculateDistance_def Let_def assms(1) [symmetric]
    by (simp add: assms(2-7))
  then show ?thesis by (simp add: js_le_def)
qed

end
